theory Spec2Isabelle
  imports Complex_Main "HOL-Library.Multiset"
begin

section \<open>Picture-in-Picture arbitration: data model\<close>

text \<open>
  The background script (the second document of \<^verbatim>\<open>PipVideo/config/webpack.config.js\<close>)
  probes every frame of a tab for video elements, ranks the snapshots it gets back and asks
  the winning frame to enter Picture-in-Picture.

  A video element, as far as the scripts read it: \<^verbatim>\<open>e.paused\<close>, \<^verbatim>\<open>e.isConnected\<close>, and the
  property \<^verbatim>\<open>e.connected\<close>, which the in-frame comparator reads from the element itself.
  The DOM defines no property of that name on a media element, so reading it gives
  \<^verbatim>\<open>undefined\<close> (\<open>None\<close>) unless the page has put one there.
\<close>

record video_element =
  el_paused :: bool
  el_isConnected :: bool
  el_connected :: "bool option"

text \<open>
  The snapshot the probe returns for one element,
  \<^verbatim>\<open>{paused: e.paused, connected: e.isConnected}\<close>, and the candidate the background script
  makes of it with \<^verbatim>\<open>v.frameId = o.frameId\<close>.
\<close>

record snapshot =
  paused :: bool
  connected :: bool

record candidate = snapshot +
  frameId :: int

text \<open>One entry of the array \<^verbatim>\<open>chrome.scripting.executeScript\<close> resolves to.\<close>

record injection_result =
  ir_frameId :: int
  ir_result :: "snapshot list"

section \<open>The runtime's array operations\<close>

text \<open>
  \<^verbatim>\<open>Array.prototype.sort(comparefn)\<close> turns the comparator's value into a number and reads
  \<^verbatim>\<open>NaN\<close> (what \<^verbatim>\<open>undefined\<close> becomes) as \<open>+0\<close>. A comparator that may fall off its end is
  modelled with result type \<open>int option\<close>, \<open>None\<close> being \<^verbatim>\<open>undefined\<close>.
\<close>

definition sort_compare :: "('a \<Rightarrow> 'a \<Rightarrow> int option) \<Rightarrow> 'a \<Rightarrow> 'a \<Rightarrow> int" where
  "sort_compare comparefn x y = (case comparefn x y of None \<Rightarrow> 0 | Some v \<Rightarrow> v)"

text \<open>
  The sort is stable: an element goes in front of the first element of the sorted rest that
  it does not compare greater than, so elements that compare equal keep their input order.
  For a comparator that orders its arguments consistently every stable sort returns this
  list, whatever algorithm the engine runs.
\<close>

fun sort_insert :: "('a \<Rightarrow> 'a \<Rightarrow> int option) \<Rightarrow> 'a \<Rightarrow> 'a list \<Rightarrow> 'a list" where
  "sort_insert comparefn x [] = [x]"
| "sort_insert comparefn x (y # ys) =
     (if sort_compare comparefn x y \<le> 0 then x # y # ys
      else y # sort_insert comparefn x ys)"

fun sort_js :: "('a \<Rightarrow> 'a \<Rightarrow> int option) \<Rightarrow> 'a list \<Rightarrow> 'a list" where
  "sort_js comparefn [] = []"
| "sort_js comparefn (x # xs) = sort_insert comparefn x (sort_js comparefn xs)"

text \<open>\<^verbatim>\<open>Array.prototype.shift\<close>: the first element, \<^verbatim>\<open>undefined\<close> on an empty array.\<close>

definition shift :: "'a list \<Rightarrow> 'a option" where
  "shift xs = (case xs of [] \<Rightarrow> None | x # _ \<Rightarrow> Some x)"

section \<open>Candidate Ranker\<close>

text \<open>The comparator \<^verbatim>\<open>sorting\<close> of the background script, branch for branch.\<close>

definition sorting :: "candidate \<Rightarrow> candidate \<Rightarrow> int" where
  "sorting a b =
     (if paused a = False \<and> paused b then - 1
      else if paused b = False \<and> paused a then 1
      else if connected a = False \<and> connected b then - 1
      else if connected b = False \<and> connected a then 1
      else frameId a - frameId b)"

text \<open>
  \<^verbatim>\<open>(r || []).map(o => o.result.map(v => {v.frameId = o.frameId; return v;})).flat()\<close>
\<close>

definition tag_frame :: "injection_result \<Rightarrow> candidate list" where
  "tag_frame o_res =
     map (\<lambda>v. \<lparr>paused = paused v, connected = connected v, frameId = ir_frameId o_res\<rparr>)
       (ir_result o_res)"

definition flatten_results :: "injection_result list \<Rightarrow> candidate list" where
  "flatten_results r = concat (map tag_frame r)"

text \<open>\<^verbatim>\<open>.sort(sorting).shift()\<close>: the winner, or \<open>None\<close> for \<^verbatim>\<open>undefined\<close>.\<close>

definition rank_select :: "candidate list \<Rightarrow> candidate option" where
  "rank_select cs = shift (sort_js (\<lambda>a b. Some (sorting a b)) cs)"

text \<open>
  What any conforming implementation of \<^verbatim>\<open>sort\<close> may return for the candidates \<open>cs\<close>: a
  rearrangement of them in which no element compares greater than a later one.
\<close>

definition sort_outcome :: "candidate list \<Rightarrow> candidate list \<Rightarrow> bool" where
  "sort_outcome cs ys \<longleftrightarrow> mset ys = mset cs \<and> sorted_wrt (\<lambda>a b. sorting a b \<le> 0) ys"

section \<open>PiP Activator: the comparator inside the winning frame\<close>

text \<open>
  The activation script declares its own \<^verbatim>\<open>sorting\<close> and applies it to the elements of
  \<^verbatim>\<open>[...es]\<close>, not to snapshots: it reads \<^verbatim>\<open>a.paused\<close> and \<^verbatim>\<open>a.connected\<close> of the element.
  \<^verbatim>\<open>a.connected === false\<close> holds only for the boolean \<^verbatim>\<open>false\<close>; \<^verbatim>\<open>&& b.connected\<close> tests
  truthiness. The function has no final \<^verbatim>\<open>else\<close>, so it returns \<^verbatim>\<open>undefined\<close> there.
\<close>

definition truthy :: "bool option \<Rightarrow> bool" where
  "truthy v = (case v of None \<Rightarrow> False | Some b \<Rightarrow> b)"

definition sorting_in_frame :: "video_element \<Rightarrow> video_element \<Rightarrow> int option" where
  "sorting_in_frame a b =
     (if el_paused a = False \<and> el_paused b then Some (- 1)
      else if el_paused b = False \<and> el_paused a then Some 1
      else if el_connected a = Some False \<and> truthy (el_connected b) then Some (- 1)
      else if el_connected b = Some False \<and> truthy (el_connected a) then Some 1
      else None)"

text \<open>The probe's \<^verbatim>\<open>map\<close> callback, and the candidate frame \<open>f\<close> contributes for an element.\<close>

definition probe_element :: "video_element \<Rightarrow> snapshot" where
  "probe_element e = \<lparr>paused = el_paused e, connected = el_isConnected e\<rparr>"

definition candidate_of :: "int \<Rightarrow> video_element \<Rightarrow> candidate" where
  "candidate_of f e = \<lparr>paused = el_paused e, connected = el_isConnected e, frameId = f\<rparr>"

text \<open>
  The same function body as the in-frame copy, read on snapshot objects: what the copy
  would compute if it were handed the probe's objects instead of elements.
\<close>

definition sorting_copy_on_candidates :: "candidate \<Rightarrow> candidate \<Rightarrow> int option" where
  "sorting_copy_on_candidates a b =
     (if paused a = False \<and> paused b then Some (- 1)
      else if paused b = False \<and> paused a then Some 1
      else if connected a = False \<and> connected b then Some (- 1)
      else if connected b = False \<and> connected a then Some 1
      else None)"

section \<open>The pipeline \<^verbatim>\<open>triggerPictureInPicture\<close>\<close>

text \<open>
  A promise, as far as the scripts look at it: fulfilled, or rejected with an error whose
  \<^verbatim>\<open>message\<close> is the string.
\<close>

datatype promise = Fulfilled | Rejected string

text \<open>What the pipeline does to the browser and the page, in program order.\<close>

datatype effect =
    SetIcon
  | GuardInstalled int
  | ActivationRan int
  | RequestPictureInPicture video_element
  | Alert string
  | ConsoleWarn string
  | SetBadgeText string
  | SetTitle string

text \<open>
  Everything the pipeline reads from outside: the outcome of the probe injection
  (\<open>Inl\<close> the message of a rejection), the stored preference \<^verbatim>\<open>block-pip\<close>, the outcome of
  the two later injections, the elements the activation script finds in the winning frame,
  and how the native request settles if the script makes it.
\<close>

record page_env =
  probe_injection :: "string + injection_result list"
  block_pip :: bool
  guard_injection :: "string option"
  activate_injection :: "string + video_element list"
  request_pip :: promise

text \<open>\<^verbatim>\<open>p.catch(e => alert(e.message))\<close>: the handler's effects and the promise it returns.\<close>

definition catch_alert :: "promise \<Rightarrow> effect list \<times> promise" where
  "catch_alert p = (case p of Fulfilled \<Rightarrow> ([], Fulfilled) | Rejected m \<Rightarrow> ([Alert m], Fulfilled))"

text \<open>
  The activation script: sort the frame's elements with the in-frame comparator, take the
  first, request PiP on it. The second component is the promise at the end of the chain,
  \<open>None\<close> when there was no element and no request was made.
\<close>

definition activate_in_frame ::
  "promise \<Rightarrow> video_element list \<Rightarrow> effect list \<times> promise option" where
  "activate_in_frame req es =
     (case shift (sort_js sorting_in_frame es) of
        None \<Rightarrow> ([], None)
      | Some video \<Rightarrow>
          (let (effs, p) = catch_alert req
           in (RequestPictureInPicture video # effs, Some p)))"

text \<open>The \<^verbatim>\<open>catch (e)\<close> block of the pipeline.\<close>

definition catch_block :: "string \<Rightarrow> effect list" where
  "catch_block m = [ConsoleWarn m, SetBadgeText ''E'', SetTitle m]"

definition run_activation :: "page_env \<Rightarrow> candidate \<Rightarrow> effect list" where
  "run_activation env video =
     (case activate_injection env of
        Inl m \<Rightarrow> catch_block m
      | Inr es \<Rightarrow> ActivationRan (frameId video) # fst (activate_in_frame (request_pip env) es))"

definition triggerPictureInPicture :: "page_env \<Rightarrow> effect list" where
  "triggerPictureInPicture env =
     (case probe_injection env of
        Inl m \<Rightarrow> catch_block m
      | Inr r \<Rightarrow>
          (case rank_select (flatten_results r) of
             None \<Rightarrow> catch_block ''No player is detected''
           | Some video \<Rightarrow>
               SetIcon #
               (if block_pip env then
                  (case guard_injection env of
                     Some m \<Rightarrow> catch_block m
                   | None \<Rightarrow> GuardInstalled (frameId video) # run_activation env video)
                else run_activation env video)))"

section \<open>Exit-Guard Installer\<close>

text \<open>
  A function reference: a function the page context had before any installation, or the
  proxy \<^verbatim>\<open>new Proxy(f, {apply() {...}})\<close> the guard puts around \<open>f\<close>. Calling a proxy only
  logs; the \<^verbatim>\<open>apply\<close> trap never forwards to its target.
\<close>

datatype fnref = Fn nat | Proxy fnref

datatype call_outcome = Ran nat | Ignored

definition call_fn :: "fnref \<Rightarrow> call_outcome" where
  "call_fn f = (case f of Fn n \<Rightarrow> Ran n | Proxy _ \<Rightarrow> Ignored)"

text \<open>\<^verbatim>\<open>self.pipobj\<close>: the saved pointer and the timer id (\<^verbatim>\<open>undefined\<close> before the first timer).\<close>

record pipobj =
  pointer :: fnref
  timer_id :: "nat option"

text \<open>
  The state of one frame's main world: the slot \<^verbatim>\<open>Document.prototype.exitPictureInPicture\<close>,
  \<^verbatim>\<open>self.pipobj\<close>, the pending timeouts as (id, due time in ms) in the order they were set,
  the id the next \<^verbatim>\<open>setTimeout\<close> returns, and the clock. Every timeout of this script has
  the same callback. \<open>restorations\<close> logs the due time of each callback that ran.
\<close>

record frame_state =
  exitPictureInPicture :: fnref
  self_pipobj :: "pipobj option"
  timers :: "(nat \<times> nat) list"
  next_timer :: nat
  now :: nat
  restorations :: "nat list"

definition clearTimeout :: "nat option \<Rightarrow> frame_state \<Rightarrow> frame_state" where
  "clearTimeout i s =
     (case i of
        None \<Rightarrow> s
      | Some k \<Rightarrow> s\<lparr>timers := filter (\<lambda>t. fst t \<noteq> k) (timers s)\<rparr>)"

definition setTimeout :: "nat \<Rightarrow> frame_state \<Rightarrow> nat \<times> frame_state" where
  "setTimeout delay s =
     (next_timer s,
      s\<lparr>timers := timers s @ [(next_timer s, now s + delay)], next_timer := Suc (next_timer s)\<rparr>)"

text \<open>
  The injected guard function:
  \<^verbatim>\<open>self.pipobj = self.pipobj || {pointer: Document.prototype.exitPictureInPicture};\<close>
  \<^verbatim>\<open>clearTimeout(self.pipobj.id);\<close>
  \<^verbatim>\<open>self.pipobj.id = setTimeout(restore, 2000);\<close>
  \<^verbatim>\<open>Document.prototype.exitPictureInPicture = new Proxy(Document.prototype.exitPictureInPicture, ...)\<close>
\<close>

definition install_guard :: "frame_state \<Rightarrow> frame_state" where
  "install_guard s =
     (let po = (case self_pipobj s of
                  None \<Rightarrow> \<lparr>pointer = exitPictureInPicture s, timer_id = None\<rparr>
                | Some p \<Rightarrow> p);
          s1 = clearTimeout (timer_id po) s;
          (tid, s2) = setTimeout 2000 s1
      in s2\<lparr>self_pipobj := Some (po\<lparr>timer_id := Some tid\<rparr>),
            exitPictureInPicture := Proxy (exitPictureInPicture s2)\<rparr>)"

text \<open>
  The timer callback \<^verbatim>\<open>Document.prototype.exitPictureInPicture = self.pipobj.pointer\<close>,
  run for a timeout that was due at \<open>due\<close>. (Without \<^verbatim>\<open>self.pipobj\<close> the assignment would
  throw and leave the slot as it is; no timer exists before \<^verbatim>\<open>self.pipobj\<close> does.)
\<close>

definition restore_callback :: "frame_state \<Rightarrow> nat \<Rightarrow> frame_state" where
  "restore_callback s due =
     (case self_pipobj s of
        None \<Rightarrow> s
      | Some po \<Rightarrow> s\<lparr>exitPictureInPicture := pointer po, restorations := restorations s @ [due]\<rparr>)"

text \<open>
  \<open>d\<close> ms pass: every pending timeout that is due by then fires, in the order the timeouts
  were set (all have the same delay, so that is the order of their due times).
\<close>

definition advance :: "nat \<Rightarrow> frame_state \<Rightarrow> frame_state" where
  "advance d s =
     (let t = now s + d;
          due = filter (\<lambda>x. snd x \<le> t) (timers s);
          rest = filter (\<lambda>x. \<not> snd x \<le> t) (timers s)
      in (foldl restore_callback (s\<lparr>timers := rest\<rparr>) (map snd due))\<lparr>now := t\<rparr>)"

text \<open>What happens to a frame: the guard is installed, or time passes.\<close>

datatype event = Install | Wait nat

fun step :: "frame_state \<Rightarrow> event \<Rightarrow> frame_state" where
  "step s Install = install_guard s"
| "step s (Wait d) = advance d s"

definition run :: "event list \<Rightarrow> frame_state \<Rightarrow> frame_state" where
  "run evs s = foldl step s evs"

text \<open>A frame in which the guard has never been installed, its slot holding \<open>f0\<close>.\<close>

definition fresh :: "fnref \<Rightarrow> frame_state" where
  "fresh f0 = \<lparr>exitPictureInPicture = f0, self_pipobj = None, timers = [],
               next_timer = 0, now = 0, restorations = []\<rparr>"

text \<open>
  The invariant of the frame states the installer produces from \<open>fresh f0\<close>: the saved
  pointer is \<open>f0\<close>; either nothing is pending and the slot holds \<open>f0\<close>, or exactly one
  timeout is pending, it is the one \<^verbatim>\<open>self.pipobj.id\<close> names, it is due within the next
  2000 ms, and the slot holds a proxy.
\<close>

definition guard_inv :: "fnref \<Rightarrow> frame_state \<Rightarrow> bool" where
  "guard_inv f0 s \<longleftrightarrow>
     (case self_pipobj s of
        None \<Rightarrow> timers s = [] \<and> exitPictureInPicture s = f0
      | Some po \<Rightarrow>
          pointer po = f0 \<and>
          (case timers s of
             [] \<Rightarrow> exitPictureInPicture s = f0
           | [t] \<Rightarrow> timer_id po = Some (fst t) \<and> fst t < next_timer s \<and>
                    now s < snd t \<and> snd t \<le> now s + 2000 \<and>
                    call_fn (exitPictureInPicture s) = Ignored
           | _ \<Rightarrow> False))"

section \<open>Content script: the message listener\<close>

text \<open>
  A message as the listener reads it: \<^verbatim>\<open>request.action\<close> and \<^verbatim>\<open>request.timestamp\<close>, \<open>None\<close>
  when the field is absent. A video of the page, the document at the time the listener
  and its timers run, and what the listener does: each action with the delay in ms after
  the message at which it happens.
\<close>

record message =
  action :: string
  timestamp :: "real option"

record page_video =
  pv_paused :: bool
  pv_currentTime :: real
  pv_duration :: real

record document_env =
  videos :: "page_video list"
  pictureInPictureEnabled :: bool
  pip_request :: promise

datatype content_action =
    SendResponseVideo real real bool
  | SendResponseNoVideo
  | SetCurrentTime real
  | Play
  | RequestPiP
  | ConsoleError string

text \<open>\<^verbatim>\<open>videoList.find(v => !v.paused) || videoList[0]\<close>\<close>

definition playing_or_first :: "page_video list \<Rightarrow> page_video option" where
  "playing_or_first vs =
     (case find (\<lambda>v. \<not> pv_paused v) vs of
        Some v \<Rightarrow> Some v
      | None \<Rightarrow> (case vs of [] \<Rightarrow> None | v # _ \<Rightarrow> Some v))"

text \<open>
  The listener: the timed actions, and the value it returns (\<open>Some True\<close> for
  \<^verbatim>\<open>return true\<close>, \<open>None\<close> when it falls off the end). \<^verbatim>\<open>if (request.timestamp)\<close> tests
  truthiness: an absent field and \<open>0\<close> are falsy.
\<close>

definition on_message :: "document_env \<Rightarrow> message \<Rightarrow> (nat \<times> content_action) list \<times> bool option" where
  "on_message doc request =
     (if action request = ''getVideoInfo'' then
        (case playing_or_first (videos doc) of
           Some v \<Rightarrow> ([(0, SendResponseVideo (pv_currentTime v) (pv_duration v) (pv_paused v))], Some True)
         | None \<Rightarrow> ([(0, SendResponseNoVideo)], Some True))
      else if action request = ''triggerPip'' then
        (case timestamp request of
           None \<Rightarrow> ([], Some True)
         | Some t \<Rightarrow>
             if t = 0 then ([], Some True)
             else
               (case videos doc of
                  [] \<Rightarrow> ([], Some True)
                | video # _ \<Rightarrow>
                    ([(2000, SetCurrentTime t), (2000, Play)] @
                     (if pictureInPictureEnabled doc then
                        (2500, RequestPiP) #
                        (case pip_request doc of
                           Fulfilled \<Rightarrow> []
                         | Rejected m \<Rightarrow> [(2500, ConsoleError m)])
                      else []),
                     Some True)))
      else ([], None))"

section \<open>The comparator is a total order on candidates\<close>

lemma sorting_refl: "sorting a a = 0"
  by (simp add: sorting_def)

lemma sorting_flip: "sorting a b \<le> 0 \<longleftrightarrow> 0 \<le> sorting b a"
  by (auto simp: sorting_def)

lemma sorting_total: "sorting a b \<le> 0 \<or> sorting b a \<le> 0"
  by (auto simp: sorting_def)

lemma sorting_trans:
  "sorting a b \<le> 0 \<Longrightarrow> sorting b c \<le> 0 \<Longrightarrow> sorting a c \<le> 0"
  by (auto simp: sorting_def split: if_splits)

lemma sorting_antisym:
  fixes a b :: candidate
  assumes "sorting a b \<le> 0" and "sorting b a \<le> 0"
  shows "a = b"
proof -
  from assms have "paused a = paused b \<and> connected a = connected b \<and> frameId a = frameId b"
    by (auto simp: sorting_def split: if_splits)
  then show ?thesis by simp
qed

lemma sorted_outcome_unique:
  assumes "sorted_wrt (\<lambda>a b. sorting a b \<le> 0) ys"
    and "sorted_wrt (\<lambda>a b. sorting a b \<le> 0) zs"
    and "mset ys = mset zs"
  shows "ys = zs"
  using assms
proof (induction ys arbitrary: zs)
  case Nil
  then show ?case by simp
next
  case (Cons y ys)
  then obtain z zs' where zs: "zs = z # zs'" by (cases zs) auto
  have "y \<in> set zs"
    using Cons.prems(3) by (metis list.set_intros(1) set_mset_mset)
  then have zy: "sorting z y \<le> 0"
    using Cons.prems(2) zs by (auto simp: sorting_refl)
  have "z \<in> set (y # ys)"
    using Cons.prems(3) zs by (metis list.set_intros(1) set_mset_mset)
  then have yz: "sorting y z \<le> 0"
    using Cons.prems(1) by (auto simp: sorting_refl)
  have eq: "y = z" using sorting_antisym [OF yz zy] .
  then have "mset ys = mset zs'" using Cons.prems(3) zs by simp
  then have "ys = zs'" using Cons.IH Cons.prems(1,2) zs by simp
  then show ?case using eq zs by simp
qed

section \<open>The model of \<^verbatim>\<open>sort\<close> is a conforming outcome\<close>

lemma mset_sort_insert: "mset (sort_insert c x xs) = {#x#} + mset xs"
  by (induction xs) auto

lemma mset_sort_js: "mset (sort_js c xs) = mset xs"
  by (induction xs) (auto simp: mset_sort_insert)

lemma set_sort_insert: "set (sort_insert c x xs) = insert x (set xs)"
  by (induction xs) auto

lemma sorted_sort_insert:
  "sorted_wrt (\<lambda>a b. sorting a b \<le> 0) xs \<Longrightarrow>
   sorted_wrt (\<lambda>a b. sorting a b \<le> 0) (sort_insert (\<lambda>a b. Some (sorting a b)) x xs)"
proof (induction xs)
  case Nil
  then show ?case by simp
next
  case (Cons y ys)
  show ?case
  proof (cases "sorting x y \<le> 0")
    case True
    then have "\<forall>z\<in>set ys. sorting x z \<le> 0"
      using Cons.prems sorting_trans by auto
    then show ?thesis using True Cons.prems by (simp add: sort_compare_def)
  next
    case False
    then have "sorting y x \<le> 0" using sorting_total by blast
    then show ?thesis
      using False Cons by (auto simp: sort_compare_def set_sort_insert)
  qed
qed

lemma sorted_sort_js:
  "sorted_wrt (\<lambda>a b. sorting a b \<le> 0) (sort_js (\<lambda>a b. Some (sorting a b)) xs)"
  by (induction xs) (auto simp: sorted_sort_insert)

lemma sort_outcome_sort_js: "sort_outcome cs (sort_js (\<lambda>a b. Some (sorting a b)) cs)"
  by (simp add: sort_outcome_def mset_sort_js sorted_sort_js)

section \<open>Claims about the Candidate Ranker\<close>

text \<open>
  C1 (as the code has it). The claim puts the connected candidate first. The comparator
  does the opposite: for every pair of candidates with equal paused status, the candidate
  with \<open>connected = False\<close> is ranked ahead of the one with \<open>connected = True\<close>, whatever
  their frame ids, and it is the winner of the two in either input order.
\<close>

theorem connected_tiebreak_prefers_disconnected:
  fixes a b :: candidate
  assumes "paused a = paused b" and "connected a = False" and "connected b = True"
  shows "sorting a b = - 1 \<and> sorting b a = 1 \<and>
         rank_select [a, b] = Some a \<and> rank_select [b, a] = Some a"
  using assms by (simp add: rank_select_def shift_def sorting_def sort_compare_def)

theorem connected_tiebreak_prefers_disconnected_witness:
  "paused \<lparr>paused = True, connected = False, frameId = 1\<rparr>
     = paused \<lparr>paused = True, connected = True, frameId = 3\<rparr> \<and>
   sorting \<lparr>paused = True, connected = False, frameId = 1\<rparr>
           \<lparr>paused = True, connected = True, frameId = 3\<rparr> = - 1 \<and>
   rank_select [\<lparr>paused = True, connected = True, frameId = 3\<rparr>,
                \<lparr>paused = True, connected = False, frameId = 1\<rparr>]
     = Some \<lparr>paused = True, connected = False, frameId = 1\<rparr>"
  using connected_tiebreak_prefers_disconnected
    [of "\<lparr>paused = True, connected = False, frameId = 1\<rparr>"
        "\<lparr>paused = True, connected = True, frameId = 3\<rparr>"]
  by simp

text \<open>
  C1 as stated fails: with both candidates paused, the connected candidate of frame 3 is
  not ranked ahead of the disconnected candidate of frame 1, and it is not the winner.
\<close>

theorem connected_tiebreak_counterexample:
  "\<not> sorting \<lparr>paused = True, connected = True, frameId = 3\<rparr>
             \<lparr>paused = True, connected = False, frameId = 1\<rparr> < 0 \<and>
   rank_select [\<lparr>paused = True, connected = True, frameId = 3\<rparr>,
                \<lparr>paused = True, connected = False, frameId = 1\<rparr>]
     \<noteq> Some \<lparr>paused = True, connected = True, frameId = 3\<rparr>"
  by (simp add: rank_select_def shift_def sorting_def sort_compare_def)

text \<open>
  C2 (as the code has it). For the three candidates of the scenario the winner is the
  playing, disconnected candidate of frame 1.
\<close>

theorem scenario_winner_is_frame_1:
  "rank_select [\<lparr>paused = True, connected = True, frameId = 0\<rparr>,
                \<lparr>paused = False, connected = True, frameId = 2\<rparr>,
                \<lparr>paused = False, connected = False, frameId = 1\<rparr>]
     = Some \<lparr>paused = False, connected = False, frameId = 1\<rparr>"
  by (simp add: rank_select_def shift_def sorting_def sort_compare_def)

text \<open>C2 as stated fails: the winner of the scenario is not the candidate of frame 2.\<close>

theorem scenario_winner_counterexample:
  "rank_select [\<lparr>paused = True, connected = True, frameId = 0\<rparr>,
                \<lparr>paused = False, connected = True, frameId = 2\<rparr>,
                \<lparr>paused = False, connected = False, frameId = 1\<rparr>]
     \<noteq> Some \<lparr>paused = False, connected = True, frameId = 2\<rparr>"
  by (simp add: rank_select_def shift_def sorting_def sort_compare_def)

text \<open>
  C8. A candidate that is playing and connected is ranked ahead of every paused candidate,
  whatever the paused candidate's \<open>connected\<close> and \<open>frameId\<close> are, and it is the
  winner of the two in either input order.
\<close>

theorem playing_connected_outranks_paused:
  fixes a b :: candidate
  assumes "paused a = False" and "connected a = True" and "paused b = True"
  shows "sorting a b < 0 \<and> 0 < sorting b a \<and>
         rank_select [a, b] = Some a \<and> rank_select [b, a] = Some a"
  using assms by (simp add: rank_select_def shift_def sorting_def sort_compare_def)

theorem playing_connected_outranks_paused_witness:
  "paused \<lparr>paused = False, connected = True, frameId = 7\<rparr> = False \<and>
   paused \<lparr>paused = True, connected = False, frameId = 0\<rparr> = True \<and>
   sorting \<lparr>paused = False, connected = True, frameId = 7\<rparr>
           \<lparr>paused = True, connected = False, frameId = 0\<rparr> < 0 \<and>
   rank_select [\<lparr>paused = True, connected = False, frameId = 0\<rparr>,
                \<lparr>paused = False, connected = True, frameId = 7\<rparr>]
     = Some \<lparr>paused = False, connected = True, frameId = 7\<rparr>"
  using playing_connected_outranks_paused
    [of "\<lparr>paused = False, connected = True, frameId = 7\<rparr>"
        "\<lparr>paused = True, connected = False, frameId = 0\<rparr>"]
  by simp

text \<open>
  C9. The Ranker is deterministic. The comparator is a total order on candidates, so a
  conforming \<^verbatim>\<open>sort\<close> has only one possible outcome: whatever two runs on the same
  candidate list return, their first elements are the same, and they are the winner the
  model computes.
\<close>

theorem ranker_deterministic:
  assumes "sort_outcome cs ys" and "sort_outcome cs zs"
  shows "shift ys = shift zs \<and> shift ys = rank_select cs"
proof -
  have "ys = zs"
    using assms sorted_outcome_unique by (simp add: sort_outcome_def)
  moreover have "ys = sort_js (\<lambda>a b. Some (sorting a b)) cs"
    using assms(1) sort_outcome_sort_js [of cs] sorted_outcome_unique
    by (simp add: sort_outcome_def)
  ultimately show ?thesis by (simp add: rank_select_def)
qed

theorem ranker_deterministic_witness:
  "sort_outcome
     [\<lparr>paused = True, connected = True, frameId = 0\<rparr>,
      \<lparr>paused = False, connected = True, frameId = 2\<rparr>]
     [\<lparr>paused = False, connected = True, frameId = 2\<rparr>,
      \<lparr>paused = True, connected = True, frameId = 0\<rparr>] \<and>
   rank_select
     [\<lparr>paused = True, connected = True, frameId = 0\<rparr>,
      \<lparr>paused = False, connected = True, frameId = 2\<rparr>]
     = Some \<lparr>paused = False, connected = True, frameId = 2\<rparr>"
proof -
  have h: "sort_outcome
     [\<lparr>paused = True, connected = True, frameId = 0\<rparr>,
      \<lparr>paused = False, connected = True, frameId = 2\<rparr>]
     [\<lparr>paused = False, connected = True, frameId = 2\<rparr>,
      \<lparr>paused = True, connected = True, frameId = 0\<rparr>]"
    by (simp add: sort_outcome_def sorting_def)
  show ?thesis
    using h ranker_deterministic [OF h h] by (simp add: shift_def)
qed

section \<open>Claims about the pipeline\<close>

text \<open>
  C3 (as the code has it). When the pipeline reaches the activation script, the script's
  sort picks the element \<open>v\<close> and the native request rejects with message \<open>m\<close>, the
  rejection is caught at the call by \<^verbatim>\<open>.catch(e => alert(e.message))\<close>: the user sees an alert
  dialog with the message, the promise chain ends fulfilled, and the pipeline's own
  \<^verbatim>\<open>catch\<close> block does not run, so neither the badge text nor the hover title is set.
\<close>

theorem activation_rejection_alerted:
  assumes "probe_injection env = Inr r"
    and "rank_select (flatten_results r) = Some video"
    and "block_pip env \<longrightarrow> guard_injection env = None"
    and "activate_injection env = Inr es"
    and "shift (sort_js sorting_in_frame es) = Some v"
    and "request_pip env = Rejected m"
  shows "triggerPictureInPicture env =
           SetIcon # (if block_pip env then [GuardInstalled (frameId video)] else []) @
           [ActivationRan (frameId video), RequestPictureInPicture v, Alert m] \<and>
         snd (activate_in_frame (request_pip env) es) = Some Fulfilled \<and>
         SetBadgeText t \<notin> set (triggerPictureInPicture env) \<and>
         SetTitle t \<notin> set (triggerPictureInPicture env)"
  using assms
  by (simp add: triggerPictureInPicture_def run_activation_def activate_in_frame_def
        catch_alert_def)

theorem activation_rejection_alerted_witness:
  "triggerPictureInPicture
     \<lparr>probe_injection = Inr [\<lparr>ir_frameId = 0, ir_result = [\<lparr>paused = False, connected = True\<rparr>]\<rparr>],
        block_pip = True, guard_injection = None,
        activate_injection =
          Inr [\<lparr>el_paused = False, el_isConnected = True, el_connected = None\<rparr>],
        request_pip = Rejected ''NotAllowedError''\<rparr>
   = [SetIcon, GuardInstalled 0, ActivationRan 0,
      RequestPictureInPicture \<lparr>el_paused = False, el_isConnected = True, el_connected = None\<rparr>,
      Alert ''NotAllowedError'']"
  using activation_rejection_alerted
    [of "\<lparr>probe_injection = Inr [\<lparr>ir_frameId = 0, ir_result = [\<lparr>paused = False, connected = True\<rparr>]\<rparr>],
        block_pip = True, guard_injection = None,
        activate_injection =
          Inr [\<lparr>el_paused = False, el_isConnected = True, el_connected = None\<rparr>],
        request_pip = Rejected ''NotAllowedError''\<rparr>"
        "[\<lparr>ir_frameId = 0, ir_result = [\<lparr>paused = False, connected = True\<rparr>]\<rparr>]"
        "\<lparr>paused = False, connected = True, frameId = 0\<rparr>"
        "[\<lparr>el_paused = False, el_isConnected = True, el_connected = None\<rparr>]"
        "\<lparr>el_paused = False, el_isConnected = True, el_connected = None\<rparr>"
        "''NotAllowedError''"]
  by (simp add: rank_select_def flatten_results_def tag_frame_def shift_def)

text \<open>
  C3 as stated fails: one playing video in frame 0, the native request rejects with
  \<^verbatim>\<open>NotAllowedError\<close>; the badge text is not set and the title does not get the message.
\<close>

theorem activation_rejection_counterexample:
  "SetBadgeText ''E'' \<notin> set (triggerPictureInPicture
     \<lparr>probe_injection = Inr [\<lparr>ir_frameId = 0, ir_result = [\<lparr>paused = False, connected = True\<rparr>]\<rparr>],
        block_pip = True, guard_injection = None,
        activate_injection =
          Inr [\<lparr>el_paused = False, el_isConnected = True, el_connected = None\<rparr>],
        request_pip = Rejected ''NotAllowedError''\<rparr>) \<and>
   SetTitle ''NotAllowedError'' \<notin> set (triggerPictureInPicture
     \<lparr>probe_injection = Inr [\<lparr>ir_frameId = 0, ir_result = [\<lparr>paused = False, connected = True\<rparr>]\<rparr>],
        block_pip = True, guard_injection = None,
        activate_injection =
          Inr [\<lparr>el_paused = False, el_isConnected = True, el_connected = None\<rparr>],
        request_pip = Rejected ''NotAllowedError''\<rparr>)"
  by (simp add: triggerPictureInPicture_def run_activation_def activate_in_frame_def
        catch_alert_def rank_select_def flatten_results_def tag_frame_def shift_def
        sorting_def sort_compare_def)

text \<open>
  C7. When the probe resolves and no frame contributed a candidate, there is no winner;
  the pipeline sets no icon, installs no guard and runs no activation; all it does is the
  \<^verbatim>\<open>catch\<close> block with the message \<^verbatim>\<open>No player is detected\<close>: badge text \<^verbatim>\<open>E\<close> and that
  message as the hover title.
\<close>

theorem no_candidate_no_winner:
  assumes "probe_injection env = Inr r" and "flatten_results r = []"
  shows "rank_select (flatten_results r) = None \<and>
         triggerPictureInPicture env =
           [ConsoleWarn ''No player is detected'', SetBadgeText ''E'',
            SetTitle ''No player is detected''] \<and>
         GuardInstalled f \<notin> set (triggerPictureInPicture env) \<and>
         ActivationRan f \<notin> set (triggerPictureInPicture env) \<and>
         RequestPictureInPicture e \<notin> set (triggerPictureInPicture env)"
  using assms
  by (simp add: triggerPictureInPicture_def rank_select_def shift_def catch_block_def)

theorem no_candidate_no_winner_witness:
  "flatten_results [\<lparr>ir_frameId = 0, ir_result = []\<rparr>, \<lparr>ir_frameId = 4, ir_result = []\<rparr>] = [] \<and>
   triggerPictureInPicture
     \<lparr>probe_injection = Inr [\<lparr>ir_frameId = 0, ir_result = []\<rparr>, \<lparr>ir_frameId = 4, ir_result = []\<rparr>],
      block_pip = True, guard_injection = None, activate_injection = Inr [],
      request_pip = Fulfilled\<rparr>
   = [ConsoleWarn ''No player is detected'', SetBadgeText ''E'',
      SetTitle ''No player is detected'']"
  using no_candidate_no_winner
    [of "\<lparr>probe_injection = Inr [\<lparr>ir_frameId = 0, ir_result = []\<rparr>, \<lparr>ir_frameId = 4, ir_result = []\<rparr>],
          block_pip = True, guard_injection = None, activate_injection = Inr [],
          request_pip = Fulfilled\<rparr>"
        "[\<lparr>ir_frameId = 0, ir_result = []\<rparr>, \<lparr>ir_frameId = 4, ir_result = []\<rparr>]"]
  by (simp add: flatten_results_def tag_frame_def)

section \<open>The in-frame comparator against the Ranker's\<close>

text \<open>
  Read on the probe's snapshot objects, the in-frame copy differs from the Ranker's
  comparator only in its missing last branch, and within one frame \<^verbatim>\<open>sort\<close> reads the
  missing value as the \<open>0\<close> the Ranker returns there.
\<close>

lemma in_frame_body_on_snapshots:
  "frameId a = frameId b \<Longrightarrow> sort_compare sorting_copy_on_candidates a b = sorting a b"
  by (simp add: sort_compare_def sorting_copy_on_candidates_def sorting_def)

text \<open>The candidates the pipeline makes of the elements \<open>es\<close> that frame \<open>f\<close> probed.\<close>

lemma tag_frame_probe:
  "tag_frame \<lparr>ir_frameId = f, ir_result = map probe_element es\<rparr> = map (candidate_of f) es"
  by (simp add: tag_frame_def probe_element_def candidate_of_def)

text \<open>
  The activation script hands it elements. On elements without a \<^verbatim>\<open>connected\<close> property
  the two \<^verbatim>\<open>connected\<close> branches never fire, and the order is by \<^verbatim>\<open>paused\<close> alone.
\<close>

lemma in_frame_on_elements:
  "el_connected a = None \<Longrightarrow> el_connected b = None \<Longrightarrow>
   sort_compare sorting_in_frame a b =
     (if el_paused a = el_paused b then 0 else if el_paused a then 1 else - 1)"
  by (auto simp: sort_compare_def sorting_in_frame_def truthy_def)

text \<open>
  C4 (the code departs from the claim). Frame 0 holds two paused video elements, the first
  attached to the document, the second detached, neither with a \<^verbatim>\<open>connected\<close> property of
  its own. On their candidates the Ranker's comparator puts the detached one first
  (\<open>- 1\<close>) and the Ranker selects it; on the elements the in-frame comparator returns
  \<^verbatim>\<open>undefined\<close>, which \<^verbatim>\<open>sort\<close> reads as equal, and the activation script selects the attached
  one.
\<close>

theorem in_frame_comparator_diverges:
  "sorting
     (candidate_of 0 \<lparr>el_paused = True, el_isConnected = False, el_connected = None\<rparr>)
     (candidate_of 0 \<lparr>el_paused = True, el_isConnected = True, el_connected = None\<rparr>) = - 1 \<and>
   sorting_in_frame
     \<lparr>el_paused = True, el_isConnected = False, el_connected = None\<rparr>
     \<lparr>el_paused = True, el_isConnected = True, el_connected = None\<rparr> = None \<and>
   sort_compare sorting_in_frame
     \<lparr>el_paused = True, el_isConnected = False, el_connected = None\<rparr>
     \<lparr>el_paused = True, el_isConnected = True, el_connected = None\<rparr> = 0 \<and>
   rank_select (map (candidate_of 0)
     [\<lparr>el_paused = True, el_isConnected = True, el_connected = None\<rparr>,
      \<lparr>el_paused = True, el_isConnected = False, el_connected = None\<rparr>])
     = Some (candidate_of 0 \<lparr>el_paused = True, el_isConnected = False, el_connected = None\<rparr>) \<and>
   shift (sort_js sorting_in_frame
     [\<lparr>el_paused = True, el_isConnected = True, el_connected = None\<rparr>,
      \<lparr>el_paused = True, el_isConnected = False, el_connected = None\<rparr>])
     = Some \<lparr>el_paused = True, el_isConnected = True, el_connected = None\<rparr>"
  by (simp add: sorting_def sorting_in_frame_def sort_compare_def candidate_of_def
        rank_select_def shift_def truthy_def)

section \<open>The exit guard keeps its invariant\<close>

lemma guard_inv_fresh: "guard_inv f0 (fresh f0)"
  by (simp add: guard_inv_def fresh_def)

lemma guard_inv_timers: "guard_inv f0 s \<Longrightarrow> length (timers s) \<le> 1"
  by (auto simp: guard_inv_def split: option.splits list.splits)

lemma install_guard_eq:
  assumes "guard_inv f0 s"
  shows "install_guard s =
     s\<lparr>timers := [(next_timer s, now s + 2000)], next_timer := Suc (next_timer s),
       self_pipobj := Some \<lparr>pointer = f0, timer_id = Some (next_timer s)\<rparr>,
       exitPictureInPicture := Proxy (exitPictureInPicture s)\<rparr>"
  using assms
  by (auto simp: guard_inv_def install_guard_def clearTimeout_def setTimeout_def Let_def
           split: option.splits list.splits)

lemma guard_inv_install: "guard_inv f0 s \<Longrightarrow> guard_inv f0 (install_guard s)"
  by (simp add: install_guard_eq) (simp add: guard_inv_def call_fn_def)

lemma advance_idle:
  assumes "timers s = []"
  shows "advance d s = s\<lparr>now := now s + d\<rparr>"
  using assms by (simp add: advance_def Let_def)

lemma advance_pending:
  assumes "guard_inv f0 s" and "timers s = [(i, due)]" and "\<not> due \<le> now s + d"
  shows "advance d s = s\<lparr>now := now s + d\<rparr>"
  using assms by (simp add: advance_def Let_def)

lemma advance_fire:
  assumes "guard_inv f0 s" and "timers s = [(i, due)]" and "due \<le> now s + d"
  shows "advance d s =
     s\<lparr>timers := [], exitPictureInPicture := f0, restorations := restorations s @ [due],
       now := now s + d\<rparr>"
  using assms
  by (auto simp: advance_def Let_def restore_callback_def guard_inv_def split: option.splits)

lemma guard_inv_advance: "guard_inv f0 s \<Longrightarrow> guard_inv f0 (advance d s)"
proof -
  assume inv: "guard_inv f0 s"
  then consider "timers s = []" | i due where "timers s = [(i, due)]"
    by (cases "timers s") (auto simp: guard_inv_def split: option.splits list.splits)
  then show ?thesis
  proof cases
    case 1
    then show ?thesis using inv by (simp add: advance_idle guard_inv_def split: option.splits)
  next
    case 2
    show ?thesis
    proof (cases "due \<le> now s + d")
      case True
      then show ?thesis using inv 2 by (simp add: advance_fire) (simp add: guard_inv_def split: option.splits)
    next
      case False
      then show ?thesis using inv 2 by (simp add: advance_pending) (auto simp add: guard_inv_def split: option.splits)
    qed
  qed
qed

lemma guard_inv_step: "guard_inv f0 s \<Longrightarrow> guard_inv f0 (step s e)"
  by (cases e) (simp_all add: guard_inv_install guard_inv_advance)

lemma guard_inv_run: "guard_inv f0 s \<Longrightarrow> guard_inv f0 (run evs s)"
  unfolding run_def by (induction evs arbitrary: s) (simp_all add: guard_inv_step)

lemma guard_inv_reachable: "guard_inv f0 (run evs (fresh f0))"
  by (simp add: guard_inv_run guard_inv_fresh)

lemma run_Cons: "run (e # evs) s = run evs (step s e)"
  by (simp add: run_def)

lemma run_Nil: "run [] s = s"
  by (simp add: run_def)

lemma waits_pending:
  assumes "guard_inv f0 s" and "timers s = [(i, due)]"
  shows "run (map Wait ds) s =
     (if due \<le> now s + sum_list ds
      then s\<lparr>timers := [], exitPictureInPicture := f0, restorations := restorations s @ [due],
             now := now s + sum_list ds\<rparr>
      else s\<lparr>now := now s + sum_list ds\<rparr>)"
  using assms
proof (induction ds arbitrary: s)
  case Nil
  then have "now s < due" by (simp add: guard_inv_def split: option.splits)
  then show ?case by (simp add: run_Nil)
next
  case (Cons d ds)
  show ?case
  proof (cases "due \<le> now s + d")
    case True
    have idle: "\<And>t. timers t = [] \<Longrightarrow> run (map Wait ds) t = t\<lparr>now := now t + sum_list ds\<rparr>"
      by (induction ds) (simp_all add: run_Nil run_Cons advance_idle add.assoc)
    show ?thesis using True Cons.prems
      by (simp add: run_Cons advance_fire idle add.assoc)
  next
    case False
    have inv': "guard_inv f0 (advance d s)" using Cons.prems(1) by (rule guard_inv_advance)
    have eq: "advance d s = s\<lparr>now := now s + d\<rparr>" using False Cons.prems by (simp add: advance_pending)
    have "timers (advance d s) = [(i, due)]" using eq Cons.prems(2) by simp
    from Cons.IH[OF inv' this] show ?thesis using False eq by (simp add: run_Cons add.assoc)
  qed
qed


lemma waits_idle:
  assumes "timers s = []"
  shows "run (map Wait ds) s = s\<lparr>now := now s + sum_list ds\<rparr>"
  using assms by (induction ds arbitrary: s) (simp_all add: run_Nil run_Cons advance_idle add.assoc)

text \<open>The definitions a concrete run of the frame is evaluated with.\<close>

lemmas guard_defs = run_def fresh_def install_guard_def advance_def clearTimeout_def
  setTimeout_def restore_callback_def call_fn_def Let_def

section \<open>Claims about the Exit-Guard Installer\<close>

text \<open>
  C5. Take any frame state \<open>s0\<close> the installer can have produced, install the guard
  (\<open>s1\<close>), let \<open>d < 2000\<close> ms pass and install it again (\<open>s2\<close>). The first installation's
  timeout, due 2000 ms after it, is no longer pending in \<open>s2\<close>: the only pending timeout is
  the new one, due 2000 ms after the second installation. However the following time is
  cut into waits \<open>ds\<close>, the restore callback runs exactly once, for the timeout due at
  \<open>now s2 + 2000\<close>, once 2000 ms have passed, and not before; until then a call of the
  exit-PiP slot is ignored, afterwards it behaves as \<open>f0\<close>. An override is live while its
  timeout is pending, and in no state the installer produces is more than one pending.
\<close>

theorem exit_guard_debounce:
  assumes "s0 = run evs (fresh f0)"
    and "s1 = install_guard s0"
    and "d < 2000"
    and "s2 = install_guard (advance d s1)"
  shows "timers s1 = [(next_timer s0, now s0 + 2000)] \<and>
         timers s2 = [(Suc (next_timer s0), now s0 + d + 2000)] \<and>
         now s2 = now s0 + d \<and>
         restorations s2 = restorations s0 \<and>
         restorations (run (map Wait ds) s2) =
           restorations s0 @ (if 2000 \<le> sum_list ds then [now s2 + 2000] else []) \<and>
         call_fn (exitPictureInPicture (run (map Wait ds) s2)) =
           (if 2000 \<le> sum_list ds then call_fn f0 else Ignored) \<and>
         length (timers (run evs' (fresh f0))) \<le> 1"
proof -
  have inv0: "guard_inv f0 s0" using assms(1) by (simp add: guard_inv_reachable)
  have s1: "s1 = s0\<lparr>timers := [(next_timer s0, now s0 + 2000)], next_timer := Suc (next_timer s0),
       self_pipobj := Some \<lparr>pointer = f0, timer_id = Some (next_timer s0)\<rparr>,
       exitPictureInPicture := Proxy (exitPictureInPicture s0)\<rparr>"
    using assms(2) install_guard_eq [OF inv0] by simp
  have inv1: "guard_inv f0 s1" using assms(2) inv0 by (simp add: guard_inv_install)
  have t1: "timers s1 = [(next_timer s0, now s0 + 2000)]" using s1 by simp
  have n1: "now s1 = now s0" using s1 by simp
  have adv: "advance d s1 = s1\<lparr>now := now s1 + d\<rparr>"
    using advance_pending [OF inv1 t1, of d] assms(3) n1 by simp
  have inva: "guard_inv f0 (advance d s1)" using inv1 by (rule guard_inv_advance)
  have s2: "s2 = (advance d s1)\<lparr>timers := [(next_timer (advance d s1), now (advance d s1) + 2000)],
       next_timer := Suc (next_timer (advance d s1)),
       self_pipobj := Some \<lparr>pointer = f0, timer_id = Some (next_timer (advance d s1))\<rparr>,
       exitPictureInPicture := Proxy (exitPictureInPicture (advance d s1))\<rparr>"
    using assms(4) install_guard_eq [OF inva] by simp
  have inv2: "guard_inv f0 s2" using assms(4) inva by (simp add: guard_inv_install)
  have t2: "timers s2 = [(Suc (next_timer s0), now s0 + d + 2000)]"
    using s2 adv s1 by simp
  have n2: "now s2 = now s0 + d" using s2 adv s1 by simp
  have r2: "restorations s2 = restorations s0" using s2 adv s1 by simp
  have e2: "call_fn (exitPictureInPicture s2) = Ignored" using s2 by (simp add: call_fn_def)
  have w: "run (map Wait ds) s2 =
     (if now s0 + d + 2000 \<le> now s2 + sum_list ds
      then s2\<lparr>timers := [], exitPictureInPicture := f0,
              restorations := restorations s2 @ [now s0 + d + 2000],
              now := now s2 + sum_list ds\<rparr>
      else s2\<lparr>now := now s2 + sum_list ds\<rparr>)"
    using waits_pending [OF inv2 t2] .
  have r: "restorations (run (map Wait ds) s2) =
           restorations s0 @ (if 2000 \<le> sum_list ds then [now s2 + 2000] else [])"
    using w n2 r2 by simp
  have c: "call_fn (exitPictureInPicture (run (map Wait ds) s2)) =
           (if 2000 \<le> sum_list ds then call_fn f0 else Ignored)"
    using w n2 e2 by simp
  have l: "length (timers (run evs' (fresh f0))) \<le> 1"
    using guard_inv_reachable by (rule guard_inv_timers)
  show ?thesis using t1 t2 n2 r2 r c l by simp
qed

theorem exit_guard_debounce_witness:
  "(500::nat) < 2000 \<and>
   timers (run [Install] (fresh (Fn 0))) = [(0, 2000)] \<and>
   timers (run [Install, Wait 500, Install] (fresh (Fn 0))) = [(1, 2500)] \<and>
   restorations (run [Install, Wait 500, Install, Wait 1500, Wait 499] (fresh (Fn 0))) = [] \<and>
   restorations (run [Install, Wait 500, Install, Wait 1500, Wait 500] (fresh (Fn 0))) = [2500]"
  using exit_guard_debounce [of "run [] (fresh (Fn 0))" "[]" "Fn 0"
      "install_guard (run [] (fresh (Fn 0)))" 500
      "install_guard (advance 500 (install_guard (run [] (fresh (Fn 0)))))" "[1500, 500]" "[]"]
  by (simp add: guard_defs)

text \<open>
  C6. The page context starts with \<open>f0\<close> in the exit-PiP slot. After any history \<open>evs\<close>
  of installations and waits, a further installation leaves \<open>f0\<close> as the saved pointer
  (not the proxy a previous wrap put in the slot) and a proxy in the slot; once 2000 ms
  pass without another installation the slot holds \<open>f0\<close> again and nothing is pending.
  The slot is written by the installer and its timer only.
\<close>

theorem exit_guard_restores_original:
  assumes "s = install_guard (run evs (fresh f0))" and "2000 \<le> sum_list ds"
  shows "call_fn (exitPictureInPicture s) = Ignored \<and>
         map_option pointer (self_pipobj s) = Some f0 \<and>
         exitPictureInPicture (run (map Wait ds) s) = f0 \<and>
         timers (run (map Wait ds) s) = []"
proof -
  let ?s0 = "run evs (fresh f0)"
  have inv0: "guard_inv f0 ?s0" by (rule guard_inv_reachable)
  have s: "s = ?s0\<lparr>timers := [(next_timer ?s0, now ?s0 + 2000)], next_timer := Suc (next_timer ?s0),
       self_pipobj := Some \<lparr>pointer = f0, timer_id = Some (next_timer ?s0)\<rparr>,
       exitPictureInPicture := Proxy (exitPictureInPicture ?s0)\<rparr>"
    using assms(1) install_guard_eq [OF inv0] by simp
  have inv: "guard_inv f0 s" using assms(1) inv0 by (simp add: guard_inv_install)
  have t: "timers s = [(next_timer ?s0, now ?s0 + 2000)]" using s by simp
  have n: "now s = now ?s0" using s by simp
  have w: "run (map Wait ds) s =
      s\<lparr>timers := [], exitPictureInPicture := f0,
              restorations := restorations s @ [now ?s0 + 2000],
              now := now s + sum_list ds\<rparr>"
    using waits_pending [OF inv t, of ds] assms(2) n by simp
  have a: "call_fn (exitPictureInPicture s) = Ignored" using s by (simp add: call_fn_def)
  have b: "map_option pointer (self_pipobj s) = Some f0" using s by simp
  show ?thesis using a b w by simp
qed

theorem exit_guard_restores_original_witness:
  "(2000::nat) \<le> sum_list [1200, 800] \<and>
   exitPictureInPicture (run [Install, Wait 2000, Install] (fresh (Fn 7))) = Proxy (Fn 7) \<and>
   exitPictureInPicture (run [Install, Wait 300, Install, Wait 2000, Install, Wait 1200, Wait 800] (fresh (Fn 7))) = Fn 7"
  using exit_guard_restores_original [of "install_guard (run [Install, Wait 300, Install, Wait 2000] (fresh (Fn 7)))"
     "[Install, Wait 300, Install, Wait 2000]" "Fn 7" "[1200, 800]"]
  by (simp add: guard_defs)

section \<open>Claims about the content script\<close>

text \<open>
  C10. For a \<^verbatim>\<open>triggerPip\<close> message whose timestamp is absent or \<open>0\<close> the listener does
  nothing: no seek, no play, no PiP request. Whenever it does anything for such a message
  the timestamp is present and non-zero; and with a non-zero timestamp \<open>t\<close> and a video on
  the page it seeks to \<open>t\<close> and plays after 2000 ms, and requests PiP 500 ms later exactly
  when the document has PiP enabled.
\<close>

theorem triggerPip_needs_timestamp:
  assumes "action request = ''triggerPip''"
  shows "(timestamp request = None \<or> timestamp request = Some 0
            \<longrightarrow> fst (on_message doc request) = []) \<and>
         (fst (on_message doc request) \<noteq> []
            \<longrightarrow> (\<exists>t. timestamp request = Some t \<and> t \<noteq> 0)) \<and>
         (timestamp request = Some t \<and> t \<noteq> 0 \<and> videos doc = v # vs
            \<longrightarrow> take 2 (fst (on_message doc request)) = [(2000, SetCurrentTime t), (2000, Play)] \<and>
                ((2500, RequestPiP) \<in> set (fst (on_message doc request))
                   \<longleftrightarrow> pictureInPictureEnabled doc))"
  using assms by (auto simp: on_message_def split: option.splits promise.splits)

theorem triggerPip_needs_timestamp_witness:
  "action \<lparr>action = ''triggerPip'', timestamp = Some 0\<rparr> = ''triggerPip'' \<and>
   fst (on_message
     \<lparr>videos = [\<lparr>pv_paused = True, pv_currentTime = 0, pv_duration = 60\<rparr>],
      pictureInPictureEnabled = True, pip_request = Fulfilled\<rparr>
     \<lparr>action = ''triggerPip'', timestamp = Some 0\<rparr>) = [] \<and>
   fst (on_message
     \<lparr>videos = [\<lparr>pv_paused = True, pv_currentTime = 0, pv_duration = 60\<rparr>],
      pictureInPictureEnabled = True, pip_request = Fulfilled\<rparr>
     \<lparr>action = ''triggerPip'', timestamp = Some 90\<rparr>)
     = [(2000, SetCurrentTime 90), (2000, Play), (2500, RequestPiP)]"
  using triggerPip_needs_timestamp
    [of "\<lparr>action = ''triggerPip'', timestamp = Some 0\<rparr>"
        "\<lparr>videos = [\<lparr>pv_paused = True, pv_currentTime = 0, pv_duration = 60\<rparr>],
          pictureInPictureEnabled = True, pip_request = Fulfilled\<rparr>"]
  by (simp add: on_message_def)

end
